theory Spec2Isabelle
  imports Main
begin

section \<open>Strings and outcomes of external calls\<close>

text \<open>
  Strings are lists of 8-bit characters, read as code units below 256. The white space
  that \<open>String.prototype.trim\<close> strips is, in that range, TAB, LF, VT, FF, CR, SPACE
  and NBSP.
\<close>

definition isWhiteSpace :: "char \<Rightarrow> bool" where
  "isWhiteSpace c =
     (c = CHR 0x09 \<or> c = CHR 0x0A \<or> c = CHR 0x0B \<or> c = CHR 0x0C \<or> c = CHR 0x0D \<or>
      c = CHR 0x20 \<or> c = CHR 0xA0)"

definition trim :: "string \<Rightarrow> string" where
  "trim s = rev (dropWhile isWhiteSpace (rev (dropWhile isWhiteSpace s)))"

text \<open>
  A value caught by \<open>catch (err)\<close>: either an \<open>Error\<close> object carrying a message, or
  anything else. The handlers read it as
  \<open>err instanceof Error ? err.message : fallback\<close>.
\<close>

datatype thrown = ErrorObject string | OtherValue

definition thrownMessage :: "thrown \<Rightarrow> string \<Rightarrow> string" where
  "thrownMessage err fallback = (case err of ErrorObject m \<Rightarrow> m | OtherValue \<Rightarrow> fallback)"

text \<open>An awaited call of the session provider either throws or returns.\<close>

datatype 'a outcome = Threw thrown | Returned 'a

section \<open>Checkout workflow\<close>

datatype AuthStep = Email | Waiting | Details | Authenticated

record CustomerInfo =
  ci_name :: string
  ci_phone :: string
  ci_tableNumber :: string
  ci_email :: string

text \<open>The provider's user: its \<open>email\<close> field is optional.\<close>

record User =
  user_id :: string
  user_email :: "string option"

record Restaurant =
  restaurant_id :: string
  restaurant_name :: string
  restaurant_slug :: string

text \<open>What the handlers read from \<open>window\<close>.\<close>

record Browser =
  origin :: string
  pathname :: string
  encodeURIComponent :: "string \<Rightarrow> string"

record AuthError =
  error_message :: string

text \<open>The argument of \<open>supabase.auth.signInWithOtp\<close>.\<close>

record OtpRequest =
  otp_email :: string
  shouldCreateUser :: bool
  emailRedirectTo :: string
  data_restaurant_id :: string
  data_restaurant_name :: string

text \<open>
  The calls a handler makes on its collaborators, in order: the provider's \<open>getUser\<close>
  and \<open>signInWithOtp\<close>, and the caller's \<open>onPlaceOrder\<close>.
\<close>

datatype effect =
    GetUser
  | SignInWithOtp OtpRequest
  | OnPlaceOrder CustomerInfo "User option"

text \<open>The component's \<open>useState\<close> cells.\<close>

record CheckoutState =
  authStep :: AuthStep
  email :: string
  magicLinkSent :: bool
  customerInfo :: CustomerInfo
  user :: "User option"
  loading :: bool
  error :: "string option"
  resendCooldown :: int

definition initialCheckout :: CheckoutState where
  "initialCheckout =
     \<lparr>authStep = Email, email = [], magicLinkSent = False,
      customerInfo = \<lparr>ci_name = [], ci_phone = [], ci_tableNumber = [], ci_email = []\<rparr>,
      user = None, loading = False, error = None, resendCooldown = 0\<rparr>"

definition otpRequest :: "Browser \<Rightarrow> Restaurant \<Rightarrow> string \<Rightarrow> string \<Rightarrow> OtpRequest" where
  "otpRequest w restaurant addr rawEmail =
     \<lparr>otp_email = addr, shouldCreateUser = True,
      emailRedirectTo = origin w @ pathname w @ ''?email='' @ encodeURIComponent w rawEmail,
      data_restaurant_id = restaurant_id restaurant,
      data_restaurant_name = restaurant_name restaurant\<rparr>"

text \<open>\<open>currentUser && currentUser.email === email\<close>\<close>

definition sessionMatches :: "User option \<Rightarrow> string \<Rightarrow> bool" where
  "sessionMatches currentUser e =
     (case currentUser of None \<Rightarrow> False | Some u \<Rightarrow> user_email u = Some e)"

text \<open>
  \<open>handleEmailSubmit\<close>. The results of the two awaited calls are parameters; the second
  one is read only when the call is made. The \<open>finally\<close> block clears \<open>loading\<close> on
  every path that entered the \<open>try\<close>, the early \<open>return\<close> inside it included.
\<close>

definition handleEmailSubmit ::
  "Browser \<Rightarrow> Restaurant \<Rightarrow> User option outcome \<Rightarrow> AuthError option outcome \<Rightarrow>
   CheckoutState \<Rightarrow> CheckoutState \<times> effect list" where
  "handleEmailSubmit w restaurant getUserResult otpResult s =
     (if trim (email s) = [] then (s, [])
      else
        let s1 = s\<lparr>loading := True, error := None\<rparr>;
            req = otpRequest w restaurant (trim (email s)) (email s);
            caught = (\<lambda>err. s1\<lparr>error := Some (thrownMessage err ''Failed to send magic link''),
                                 loading := False\<rparr>)
        in case getUserResult of
             Threw err \<Rightarrow> (caught err, [GetUser])
           | Returned currentUser \<Rightarrow>
               if sessionMatches currentUser (email s)
               then (s1\<lparr>user := currentUser,
                         customerInfo := (customerInfo s1)\<lparr>ci_email := email s\<rparr>,
                         authStep := Details,
                         loading := False\<rparr>, [GetUser])
               else
                 (case otpResult of
                    Threw err \<Rightarrow> (caught err, [GetUser, SignInWithOtp req])
                  | Returned (Some magicLinkError) \<Rightarrow>
                      (caught (ErrorObject (error_message magicLinkError)),
                       [GetUser, SignInWithOtp req])
                  | Returned None \<Rightarrow>
                      (s1\<lparr>magicLinkSent := True, authStep := Waiting,
                          resendCooldown := 60, loading := False\<rparr>,
                       [GetUser, SignInWithOtp req])))"

text \<open>\<open>handleResendMagicLink\<close>: the request carries the email as typed, not trimmed.\<close>

definition handleResendMagicLink ::
  "Browser \<Rightarrow> Restaurant \<Rightarrow> AuthError option outcome \<Rightarrow>
   CheckoutState \<Rightarrow> CheckoutState \<times> effect list" where
  "handleResendMagicLink w restaurant otpResult s =
     (if resendCooldown s > 0 then (s, [])
      else
        let s1 = s\<lparr>loading := True, error := None\<rparr>;
            req = otpRequest w restaurant (email s) (email s);
            caught = (\<lambda>err. s1\<lparr>error := Some (thrownMessage err ''Failed to resend magic link''),
                                 loading := False\<rparr>)
        in case otpResult of
             Threw err \<Rightarrow> (caught err, [SignInWithOtp req])
           | Returned (Some magicLinkError) \<Rightarrow>
               (caught (ErrorObject (error_message magicLinkError)), [SignInWithOtp req])
           | Returned None \<Rightarrow>
               (s1\<lparr>resendCooldown := 60, loading := False\<rparr>, [SignInWithOtp req]))"

text \<open>
  The cooldown effect: while \<open>resendCooldown > 0\<close> it schedules one timer whose callback
  stores the rendered value minus one; otherwise it schedules nothing.
\<close>

definition cooldownTimer :: "CheckoutState \<Rightarrow> int option" where
  "cooldownTimer s = (if resendCooldown s > 0 then Some (resendCooldown s - 1) else None)"

definition timerTick :: "CheckoutState \<Rightarrow> CheckoutState" where
  "timerTick s = (case cooldownTimer s of None \<Rightarrow> s | Some v \<Rightarrow> s\<lparr>resendCooldown := v\<rparr>)"

text \<open>\<open>handleDetailsSubmit\<close>\<close>

definition handleDetailsSubmit :: "CheckoutState \<Rightarrow> CheckoutState \<times> effect list" where
  "handleDetailsSubmit s =
     (if trim (ci_name (customerInfo s)) = [] \<or> trim (ci_phone (customerInfo s)) = [] \<or>
         trim (ci_tableNumber (customerInfo s)) = []
      then (s\<lparr>error := Some ''Please fill in all required fields''\<rparr>, [])
      else (s, [OnPlaceOrder (customerInfo s) (user s)]))"

text \<open>How many magic-link requests a handler dispatched.\<close>

definition isOtp :: "effect \<Rightarrow> bool" where
  "isOtp e = (case e of SignInWithOtp _ \<Rightarrow> True | _ \<Rightarrow> False)"

definition otpCount :: "effect list \<Rightarrow> nat" where
  "otpCount es = length (filter isOtp es)"

definition isPlaceOrder :: "effect \<Rightarrow> bool" where
  "isPlaceOrder e = (case e of OnPlaceOrder _ _ \<Rightarrow> True | _ \<Rightarrow> False)"

text \<open>
  The message of a failed magic-link request, as the \<open>catch\<close> block computes it: a
  returned error is thrown again as \<open>new Error(magicLinkError.message)\<close>. \<open>None\<close> when
  the request succeeded.
\<close>

definition failureMessage :: "AuthError option outcome \<Rightarrow> string \<Rightarrow> string option" where
  "failureMessage otpResult fallback =
     (case otpResult of
        Threw err \<Rightarrow> Some (thrownMessage err fallback)
      | Returned (Some magicLinkError) \<Rightarrow> Some (error_message magicLinkError)
      | Returned None \<Rightarrow> None)"

section \<open>Session-change subscription\<close>

text \<open>
  The session provider is an external collaborator; of it only the registry of
  session-change callbacks is kept: the identifiers of the registered callbacks and the
  next identifier to hand out. \<open>onAuthStateChange\<close> registers a callback and returns its
  subscription; the subscription's \<open>unsubscribe\<close> removes it.
\<close>

record AuthClient =
  listeners :: "nat list"
  nextSubscription :: nat

definition onAuthStateChange :: "AuthClient \<Rightarrow> nat \<times> AuthClient" where
  "onAuthStateChange c =
     (nextSubscription c,
      c\<lparr>listeners := nextSubscription c # listeners c,
        nextSubscription := Suc (nextSubscription c)\<rparr>)"

definition unsubscribe :: "nat \<Rightarrow> AuthClient \<Rightarrow> AuthClient" where
  "unsubscribe subscription c = c\<lparr>listeners := removeAll subscription (listeners c)\<rparr>"

text \<open>
  The subscription effect: it subscribes and returns the cleanup
  \<open>() => subscription.unsubscribe()\<close>.
\<close>

definition authListenerEffect :: "AuthClient \<Rightarrow> (AuthClient \<Rightarrow> AuthClient) \<times> AuthClient" where
  "authListenerEffect c =
     (case onAuthStateChange c of (subscription, c') \<Rightarrow> (unsubscribe subscription, c'))"

text \<open>
  The effect has an empty dependency list: it runs once when the component mounts, and
  its cleanup runs once when the component unmounts, on the client as it is then.
\<close>

definition mount :: "AuthClient \<Rightarrow> (AuthClient \<Rightarrow> AuthClient) \<times> AuthClient" where
  "mount c = authListenerEffect c"

definition unmount :: "(AuthClient \<Rightarrow> AuthClient) \<Rightarrow> AuthClient \<Rightarrow> AuthClient" where
  "unmount cleanup c = cleanup c"

section \<open>Order-status view\<close>

text \<open>
  Of an order, an item and an invoice the fields that hold amounts of money are left out:
  no function below reads them.
\<close>

record OrderItem =
  dish_name :: string
  quantity :: int
  preparation_time :: "int option"

record Order =
  order_id :: string
  customer_name :: string
  customer_phone :: string
  table_number :: string
  items :: "OrderItem list"
  payment_status :: "string option"
  status :: string
  created_at :: string
  order_user_id :: "string option"
  order_restaurant_name :: string
  order_restaurant_slug :: string

record Invoice =
  inv_id :: string
  inv_order_id :: string
  invoice_number :: string

datatype icon = CheckCircle | XCircle | Loader2 | Clock

record StatusInfo =
  icon :: icon
  color :: string
  bgColor :: string
  borderColor :: string
  title :: string
  message :: string
  showRefresh :: bool

text \<open>The four object literals that \<open>getPaymentStatusInfo\<close> returns.\<close>

definition successInfo :: StatusInfo where
  "successInfo =
     \<lparr>icon = CheckCircle, color = ''text-green-500'', bgColor = ''bg-green-50'',
      borderColor = ''border-green-200'', title = ''Payment Successful!'',
      message = ''Your payment has been processed successfully.'',
      showRefresh = False\<rparr>"

definition failedInfo :: StatusInfo where
  "failedInfo =
     \<lparr>icon = XCircle, color = ''text-red-500'', bgColor = ''bg-red-50'',
      borderColor = ''border-red-200'', title = ''Payment Failed'',
      message = ''Your payment could not be processed. Please try again.'',
      showRefresh = True\<rparr>"

definition processingInfo :: StatusInfo where
  "processingInfo =
     \<lparr>icon = Loader2, color = ''text-yellow-500'', bgColor = ''bg-yellow-50'',
      borderColor = ''border-yellow-200'', title = ''Payment Processing'',
      message = ''We'' @ [CHR 0x27] @ ''re confirming your payment. Please wait...'',
      showRefresh = True\<rparr>"

definition unsetInfo :: StatusInfo where
  "unsetInfo =
     \<lparr>icon = Clock, color = ''text-blue-500'', bgColor = ''bg-blue-50'',
      borderColor = ''border-blue-200'', title = ''Order Confirmed'',
      message = ''Your order has been placed successfully.'',
      showRefresh = False\<rparr>"

text \<open>
  The \<open>switch\<close> compares with \<open>===\<close>. The argument is \<open>order.payment_status\<close>, a string
  or null cast to \<open>PaymentStatus\<close>, so the \<open>default\<close> branch takes null and every string
  that is none of the four.
\<close>

definition getPaymentStatusInfo :: "string option \<Rightarrow> StatusInfo" where
  "getPaymentStatusInfo paymentStatus =
     (if paymentStatus = Some ''SUCCESS'' then successInfo
      else if paymentStatus = Some ''FAILED'' then failedInfo
      else if paymentStatus = Some ''PENDING'' \<or> paymentStatus = Some ''PROCESSING''
        then processingInfo
      else unsetInfo)"

text \<open>\<open>item.preparation_time || 0\<close>: a missing value and 0 both give 0.\<close>

definition prepOrZero :: "OrderItem \<Rightarrow> int" where
  "prepOrZero item = (case preparation_time item of None \<Rightarrow> 0 | Some t \<Rightarrow> t)"

text \<open>\<open>order.items.reduce((max, item) => Math.max(max, item.preparation_time || 0), 0)\<close>\<close>

definition estimatedTime :: "OrderItem list \<Rightarrow> int" where
  "estimatedTime its = foldl (\<lambda>mx item. max mx (prepOrZero item)) 0 its"

text \<open>
  The order query gives \<open>{data, error}\<close>; an error is thrown again and the \<open>catch\<close>
  ignores what it caught, so a failed load is one case.
\<close>

datatype orderLoad = LoadFailed | Loaded Order

record InvoiceResult =
  success :: bool
  invoice :: "Invoice option"

text \<open>The response of \<open>fetch\<close>: not ok, or ok with what \<open>response.json()\<close> gives.\<close>

datatype invoiceResponse = ResponseNotOk | ResponseOk "InvoiceResult outcome"

datatype viewEffect = OrderQuery "string option" | InvoiceLookup string

record ViewState =
  ps_order :: "Order option"
  ps_invoice :: "Invoice option"
  ps_loading :: bool
  ps_error :: "string option"
  ps_refreshing :: bool
  ps_loadingInvoice :: bool

definition initialView :: ViewState where
  "initialView =
     \<lparr>ps_order = None, ps_invoice = None, ps_loading = True, ps_error = None,
      ps_refreshing = False, ps_loadingInvoice = False\<rparr>"

definition fetchInvoice ::
  "string \<Rightarrow> invoiceResponse outcome \<Rightarrow> ViewState \<Rightarrow> ViewState \<times> viewEffect list" where
  "fetchInvoice orderId response s =
     ((case response of
         Returned (ResponseOk (Returned result)) \<Rightarrow>
           if success result \<and> invoice result \<noteq> None
           then s\<lparr>ps_invoice := invoice result\<rparr> else s
       | _ \<Rightarrow> s),
      [InvoiceLookup orderId])"

definition fetchOrder ::
  "string option \<Rightarrow> orderLoad \<Rightarrow> invoiceResponse outcome \<Rightarrow> ViewState \<Rightarrow>
   ViewState \<times> viewEffect list" where
  "fetchOrder orderId load response s =
     (case load of
        LoadFailed \<Rightarrow>
          (s\<lparr>ps_error := Some ''Failed to load order details''\<rparr>, [OrderQuery orderId])
      | Loaded dat \<Rightarrow>
          let s1 = s\<lparr>ps_order := Some dat\<rparr> in
          if payment_status dat = Some ''SUCCESS''
          then (case fetchInvoice (order_id dat) response s1 of
                  (s2, es) \<Rightarrow> (s2, OrderQuery orderId # es))
          else (s1, [OrderQuery orderId]))"

text \<open>
  The effect on \<open>orderId\<close>, run at mount. \<open>!orderId\<close> holds for null and for the empty
  string.
\<close>

definition orderIdEffect ::
  "string option \<Rightarrow> orderLoad \<Rightarrow> invoiceResponse outcome \<Rightarrow> ViewState \<Rightarrow>
   ViewState \<times> viewEffect list" where
  "orderIdEffect orderId load response s =
     (if orderId = None \<or> orderId = Some []
      then (s\<lparr>ps_error := Some ''Order ID not found'', ps_loading := False\<rparr>, [])
      else (case fetchOrder orderId load response s of
              (s1, es) \<Rightarrow> (s1\<lparr>ps_loading := False\<rparr>, es)))"

definition handleRefresh ::
  "string option \<Rightarrow> orderLoad \<Rightarrow> invoiceResponse outcome \<Rightarrow> ViewState \<Rightarrow>
   ViewState \<times> viewEffect list" where
  "handleRefresh orderId load response s =
     (case fetchOrder orderId load response (s\<lparr>ps_refreshing := True\<rparr>) of
        (s1, es) \<Rightarrow> (s1\<lparr>ps_refreshing := False\<rparr>, es))"

text \<open>Which of its three screens the view renders.\<close>

datatype screen = LoadingScreen | OrderNotFound string | OrderDetails Order

definition orderOrMissing :: "Order option \<Rightarrow> screen" where
  "orderOrMissing ord =
     (case ord of
        None \<Rightarrow> OrderNotFound ''The order you are looking for does not exist.''
      | Some dat \<Rightarrow> OrderDetails dat)"

definition render :: "ViewState \<Rightarrow> screen" where
  "render s =
     (if ps_loading s then LoadingScreen
      else case ps_error s of
             None \<Rightarrow> orderOrMissing (ps_order s)
           | Some m \<Rightarrow> if m \<noteq> [] then OrderNotFound m else orderOrMissing (ps_order s))"

definition isNotFound :: "screen \<Rightarrow> bool" where
  "isNotFound scr = (case scr of OrderNotFound _ \<Rightarrow> True | _ \<Rightarrow> False)"

definition isInvoiceLookup :: "viewEffect \<Rightarrow> bool" where
  "isInvoiceLookup e = (case e of InvoiceLookup _ \<Rightarrow> True | _ \<Rightarrow> False)"

definition invoiceLookups :: "viewEffect list \<Rightarrow> viewEffect list" where
  "invoiceLookups es = filter isInvoiceLookup es"

section \<open>Dashboards\<close>

text \<open>\<open>invoices.find(invoice => invoice.order_id === orderId)\<close>\<close>

definition getInvoiceForOrder :: "Invoice list \<Rightarrow> string \<Rightarrow> Invoice option" where
  "getInvoiceForOrder invoices orderId =
     find (\<lambda>invoice. inv_order_id invoice = orderId) invoices"

text \<open>
  The per-restaurant dashboard renders one row per order, keyed by the order's id, with
  the invoice that \<open>getInvoiceForOrder\<close> finds for it.
\<close>

record OrderRow =
  row_key :: string
  row_order :: Order
  row_invoice :: "Invoice option"

definition customerDashboardRows :: "Order list \<Rightarrow> Invoice list \<Rightarrow> OrderRow list" where
  "customerDashboardRows orders invoices =
     map (\<lambda>order. \<lparr>row_key = order_id order, row_order = order,
                   row_invoice = getInvoiceForOrder invoices (order_id order)\<rparr>) orders"

text \<open>The global dashboard renders one row per invoice of its list, keyed by the invoice's id.\<close>

record InvoiceRow =
  irow_key :: string
  irow_invoice :: Invoice

definition userDashboardRows :: "Invoice list \<Rightarrow> InvoiceRow list" where
  "userDashboardRows invoices =
     map (\<lambda>invoice. \<lparr>irow_key = inv_id invoice, irow_invoice = invoice\<rparr>) invoices"

text \<open>The invoice entries a dashboard shows, in row order, and those of one order.\<close>

definition shownByCustomerDashboard :: "OrderRow list \<Rightarrow> Invoice list" where
  "shownByCustomerDashboard rows =
     concat (map (\<lambda>r. case row_invoice r of None \<Rightarrow> [] | Some i \<Rightarrow> [i]) rows)"

definition shownByUserDashboard :: "InvoiceRow list \<Rightarrow> Invoice list" where
  "shownByUserDashboard rows = map irow_invoice rows"

definition entriesFor :: "string \<Rightarrow> Invoice list \<Rightarrow> Invoice list" where
  "entriesFor orderId shown = filter (\<lambda>i. inv_order_id i = orderId) shown"

section \<open>Concrete states\<close>

text \<open>States and inputs at which the theorems below are instantiated.\<close>

definition asha :: User where
  "asha = \<lparr>user_id = ''u-17'', user_email = Some ''asha@example.com''\<rparr>"

definition emailTyped :: CheckoutState where
  "emailTyped = initialCheckout\<lparr>email := ''asha@example.com''\<rparr>"

definition waitingCold :: CheckoutState where
  "waitingCold = emailTyped\<lparr>authStep := Waiting, magicLinkSent := True, resendCooldown := 0\<rparr>"

definition waitingHot :: CheckoutState where
  "waitingHot = emailTyped\<lparr>authStep := Waiting, magicLinkSent := True, resendCooldown := 42\<rparr>"

definition detailsFilled :: CheckoutState where
  "detailsFilled =
     emailTyped\<lparr>authStep := Details, user := Some asha,
       customerInfo := \<lparr>ci_name = ''Asha'', ci_phone = ''9876543210'', ci_tableNumber = ''12'',
                        ci_email = ''asha@example.com''\<rparr>\<rparr>"

definition detailsBlankPhone :: CheckoutState where
  "detailsBlankPhone =
     emailTyped\<lparr>authStep := Details, user := Some asha,
       customerInfo := \<lparr>ci_name = ''Asha'', ci_phone = ''  '', ci_tableNumber = ''12'',
                        ci_email = ''asha@example.com''\<rparr>\<rparr>"

definition rateLimited :: AuthError where
  "rateLimited = \<lparr>error_message = ''Email rate limit exceeded''\<rparr>"

definition someClient :: AuthClient where
  "someClient = \<lparr>listeners = [2, 0], nextSubscription = 3\<rparr>"

definition dosa :: OrderItem where
  "dosa = \<lparr>dish_name = ''Masala Dosa'', quantity = 2, preparation_time = Some 15\<rparr>"

definition lassi :: OrderItem where
  "lassi = \<lparr>dish_name = ''Lassi'', quantity = 1, preparation_time = None\<rparr>"

definition oddItem :: OrderItem where
  "oddItem = \<lparr>dish_name = ''Chutney'', quantity = 1, preparation_time = Some (- 5)\<rparr>"

definition paidOrder :: Order where
  "paidOrder =
     \<lparr>order_id = ''ord-1'', customer_name = ''Asha'', customer_phone = ''9876543210'',
      table_number = ''12'', items = [dosa, lassi], payment_status = Some ''SUCCESS'',
      status = ''confirmed'', created_at = ''2025-01-05T10:00:00Z'',
      order_user_id = Some ''u-17'', order_restaurant_name = ''Spice Hub'',
      order_restaurant_slug = ''spice-hub''\<rparr>"

definition secondOrder :: Order where
  "secondOrder = paidOrder\<lparr>order_id := ''ord-2'', payment_status := Some ''PENDING''\<rparr>"

definition invoiceA :: Invoice where
  "invoiceA = \<lparr>inv_id = ''inv-1'', inv_order_id = ''ord-1'', invoice_number = ''INV-0001''\<rparr>"

definition invoiceB :: Invoice where
  "invoiceB = \<lparr>inv_id = ''inv-2'', inv_order_id = ''ord-1'', invoice_number = ''INV-0002''\<rparr>"

definition invoiceC :: Invoice where
  "invoiceC = \<lparr>inv_id = ''inv-3'', inv_order_id = ''ord-2'', invoice_number = ''INV-0003''\<rparr>"

section \<open>Checkout workflow: theorems\<close>

lemma trim_examples:
  "trim ''asha@example.com'' = ''asha@example.com''"
  "trim ''Asha'' = ''Asha''"
  "trim ''9876543210'' = ''9876543210''"
  "trim ''12'' = ''12''"
  "trim ''  '' = []"
  "trim [] = []"
  by (simp_all add: trim_def isWhiteSpace_def)

text \<open>
  Claim C2. Submitting the email step with a non-empty trimmed email, when the provider
  reports no current user or one whose email is not the submitted one, dispatches exactly
  one magic-link request (after the one \<open>getUser\<close> call); when that request succeeds, the
  step becomes \<open>waiting\<close> and the resend cooldown is 60.
\<close>

theorem email_submit_sends_link:
  assumes "trim (email s) \<noteq> []"
    and "currentUser = None \<or> (\<exists>u. currentUser = Some u \<and> user_email u \<noteq> Some (email s))"
  shows "otpCount (snd (handleEmailSubmit w r (Returned currentUser) otpResult s)) = 1 \<and>
         snd (handleEmailSubmit w r (Returned currentUser) otpResult s) =
           [GetUser, SignInWithOtp (otpRequest w r (trim (email s)) (email s))] \<and>
         (otpResult = Returned None \<longrightarrow>
            authStep (fst (handleEmailSubmit w r (Returned currentUser) otpResult s)) = Waiting \<and>
            resendCooldown (fst (handleEmailSubmit w r (Returned currentUser) otpResult s)) = 60)"
proof -
  have nm: "\<not> sessionMatches currentUser (email s)"
    using assms(2) by (auto simp: sessionMatches_def)
  show ?thesis
    using assms(1) nm
    by (simp add: handleEmailSubmit_def Let_def otpCount_def isOtp_def
             split: outcome.split option.split)
qed

theorem email_submit_sends_link_witness:
  "\<forall>w r. otpCount (snd (handleEmailSubmit w r (Returned None) (Returned None) emailTyped)) = 1 \<and>
     authStep (fst (handleEmailSubmit w r (Returned None) (Returned None) emailTyped)) = Waiting \<and>
     resendCooldown (fst (handleEmailSubmit w r (Returned None) (Returned None) emailTyped)) = 60"
proof (intro allI)
  fix w r
  have h1: "trim (email emailTyped) \<noteq> []"
    by (simp add: emailTyped_def initialCheckout_def trim_examples)
  have h2: "(None :: User option) = None \<or>
            (\<exists>u. (None :: User option) = Some u \<and> user_email u \<noteq> Some (email emailTyped))"
    by simp
  from email_submit_sends_link [OF h1 h2, of w r "Returned None"]
  show "otpCount (snd (handleEmailSubmit w r (Returned None) (Returned None) emailTyped)) = 1 \<and>
     authStep (fst (handleEmailSubmit w r (Returned None) (Returned None) emailTyped)) = Waiting \<and>
     resendCooldown (fst (handleEmailSubmit w r (Returned None) (Returned None) emailTyped)) = 60"
    by blast
qed

text \<open>
  Claim C3. Submitting the email step, when the current user's email equals the submitted
  email, moves to the \<open>details\<close> step, stores that user, records the email in the
  customer-info draft, and dispatches no magic-link request: the only call made is
  \<open>getUser\<close>. A submission carries a non-empty trimmed email: the submit button is
  disabled and the handler returns at once otherwise.
\<close>

theorem email_submit_existing_session:
  assumes "trim (email s) \<noteq> []" and "user_email u = Some (email s)"
  shows "authStep (fst (handleEmailSubmit w r (Returned (Some u)) otpResult s)) = Details \<and>
         ci_email (customerInfo (fst (handleEmailSubmit w r (Returned (Some u)) otpResult s))) =
           email s \<and>
         user (fst (handleEmailSubmit w r (Returned (Some u)) otpResult s)) = Some u \<and>
         otpCount (snd (handleEmailSubmit w r (Returned (Some u)) otpResult s)) = 0 \<and>
         snd (handleEmailSubmit w r (Returned (Some u)) otpResult s) = [GetUser]"
  using assms
  by (simp add: handleEmailSubmit_def Let_def sessionMatches_def otpCount_def isOtp_def)

theorem email_submit_existing_session_witness:
  "\<forall>w r otpResult.
     authStep (fst (handleEmailSubmit w r (Returned (Some asha)) otpResult emailTyped)) = Details \<and>
     ci_email (customerInfo (fst (handleEmailSubmit w r (Returned (Some asha)) otpResult emailTyped)))
       = ''asha@example.com'' \<and>
     otpCount (snd (handleEmailSubmit w r (Returned (Some asha)) otpResult emailTyped)) = 0"
proof (intro allI)
  fix w r otpResult
  have h1: "trim (email emailTyped) \<noteq> []"
    by (simp add: emailTyped_def initialCheckout_def trim_examples)
  have h2: "user_email asha = Some (email emailTyped)"
    by (simp add: asha_def emailTyped_def initialCheckout_def)
  have e: "email emailTyped = ''asha@example.com''"
    by (simp add: emailTyped_def initialCheckout_def)
  from email_submit_existing_session [OF h1 h2, of w r otpResult, unfolded e]
  show "authStep (fst (handleEmailSubmit w r (Returned (Some asha)) otpResult emailTyped)) = Details \<and>
     ci_email (customerInfo (fst (handleEmailSubmit w r (Returned (Some asha)) otpResult emailTyped)))
       = ''asha@example.com'' \<and>
     otpCount (snd (handleEmailSubmit w r (Returned (Some asha)) otpResult emailTyped)) = 0"
    by blast
qed

text \<open>
  Claim C4. While the cooldown is greater than 0 the resend action changes nothing and
  dispatches nothing; at cooldown 0 it dispatches exactly one magic-link request and, when
  that succeeds, sets the cooldown to 60; a timer tick lowers the cooldown by exactly 1
  when it is greater than 0 and leaves the state alone otherwise. This holds in every
  step, the \<open>waiting\<close> step included, and neither action changes the step.
\<close>

theorem resend_cooldown:
  "(resendCooldown s > 0 \<longrightarrow> handleResendMagicLink w r otpResult s = (s, [])) \<and>
   (resendCooldown s = 0 \<longrightarrow>
      otpCount (snd (handleResendMagicLink w r otpResult s)) = 1 \<and>
      snd (handleResendMagicLink w r otpResult s) =
        [SignInWithOtp (otpRequest w r (email s) (email s))] \<and>
      (otpResult = Returned None \<longrightarrow>
         resendCooldown (fst (handleResendMagicLink w r otpResult s)) = 60)) \<and>
   authStep (fst (handleResendMagicLink w r otpResult s)) = authStep s \<and>
   (resendCooldown s > 0 \<longrightarrow> timerTick s = s\<lparr>resendCooldown := resendCooldown s - 1\<rparr>) \<and>
   (\<not> resendCooldown s > 0 \<longrightarrow> timerTick s = s) \<and>
   authStep (timerTick s) = authStep s"
  by (simp add: handleResendMagicLink_def Let_def otpCount_def isOtp_def timerTick_def
        cooldownTimer_def split: outcome.split option.split)

theorem resend_cooldown_witness:
  "\<forall>w r. handleResendMagicLink w r (Returned None) waitingHot = (waitingHot, []) \<and>
     otpCount (snd (handleResendMagicLink w r (Returned None) waitingCold)) = 1 \<and>
     resendCooldown (fst (handleResendMagicLink w r (Returned None) waitingCold)) = 60 \<and>
     resendCooldown (timerTick waitingHot) = 41 \<and>
     timerTick waitingCold = waitingCold"
proof (intro allI)
  fix w r
  have hot: "resendCooldown waitingHot = 42" and cold: "resendCooldown waitingCold = 0"
    by (simp_all add: waitingHot_def waitingCold_def)
  from resend_cooldown [of waitingHot w r "Returned None"]
       resend_cooldown [of waitingCold w r "Returned None"] hot cold
  show "handleResendMagicLink w r (Returned None) waitingHot = (waitingHot, []) \<and>
     otpCount (snd (handleResendMagicLink w r (Returned None) waitingCold)) = 1 \<and>
     resendCooldown (fst (handleResendMagicLink w r (Returned None) waitingCold)) = 60 \<and>
     resendCooldown (timerTick waitingHot) = 41 \<and>
     timerTick waitingCold = waitingCold"
    by (simp add: otpCount_def isOtp_def)
qed

text \<open>
  Claim C5. On a details-step submission, if the trimmed name, phone or table number is
  empty, the step is unchanged (it stays \<open>details\<close>), the placement callback is not
  invoked and the validation message is set; if all three are non-empty, the callback is
  invoked exactly once, with the customer info as entered and the current user (or null),
  and the state is unchanged.
\<close>

theorem details_submit:
  "((trim (ci_name (customerInfo s)) = [] \<or> trim (ci_phone (customerInfo s)) = [] \<or>
     trim (ci_tableNumber (customerInfo s)) = []) \<longrightarrow>
      authStep (fst (handleDetailsSubmit s)) = authStep s \<and>
      filter isPlaceOrder (snd (handleDetailsSubmit s)) = [] \<and>
      error (fst (handleDetailsSubmit s)) = Some ''Please fill in all required fields'') \<and>
   ((trim (ci_name (customerInfo s)) \<noteq> [] \<and> trim (ci_phone (customerInfo s)) \<noteq> [] \<and>
     trim (ci_tableNumber (customerInfo s)) \<noteq> []) \<longrightarrow>
      filter isPlaceOrder (snd (handleDetailsSubmit s)) =
        [OnPlaceOrder (customerInfo s) (user s)] \<and>
      snd (handleDetailsSubmit s) = [OnPlaceOrder (customerInfo s) (user s)] \<and>
      fst (handleDetailsSubmit s) = s)"
  by (simp add: handleDetailsSubmit_def isPlaceOrder_def)

theorem details_submit_witness:
  "authStep (fst (handleDetailsSubmit detailsBlankPhone)) = Details \<and>
   filter isPlaceOrder (snd (handleDetailsSubmit detailsBlankPhone)) = [] \<and>
   error (fst (handleDetailsSubmit detailsBlankPhone)) =
     Some ''Please fill in all required fields'' \<and>
   snd (handleDetailsSubmit detailsFilled) =
     [OnPlaceOrder (customerInfo detailsFilled) (Some asha)] \<and>
   authStep (fst (handleDetailsSubmit detailsFilled)) = Details"
proof -
  have blank: "trim (ci_phone (customerInfo detailsBlankPhone)) = []"
    by (simp add: detailsBlankPhone_def trim_examples)
  have filled: "trim (ci_name (customerInfo detailsFilled)) \<noteq> [] \<and>
                trim (ci_phone (customerInfo detailsFilled)) \<noteq> [] \<and>
                trim (ci_tableNumber (customerInfo detailsFilled)) \<noteq> []"
    by (simp add: detailsFilled_def trim_examples)
  have steps: "authStep detailsBlankPhone = Details" "authStep detailsFilled = Details"
    "user detailsFilled = Some asha"
    by (simp_all add: detailsBlankPhone_def detailsFilled_def)
  from details_submit [of detailsBlankPhone] details_submit [of detailsFilled]
       blank filled steps
  show ?thesis by simp
qed

text \<open>
  Claim C6. When the magic-link request of the email-step submission or of the resend
  fails (the call throws, or returns an error), the handler stores a message string in
  \<open>error\<close> (the failure's own message, or the handler's fallback text for a thrown value
  that is no \<open>Error\<close>) and leaves the step, the cooldown and the user as they were: a
  failed submission in \<open>email\<close> stays in \<open>email\<close>, a failed resend in \<open>waiting\<close> stays in
  \<open>waiting\<close>.
\<close>

theorem send_failure_keeps_step:
  "(trim (email s) \<noteq> [] \<and> \<not> sessionMatches currentUser (email s) \<and>
    failureMessage otpResult ''Failed to send magic link'' = Some m \<longrightarrow>
      error (fst (handleEmailSubmit w r (Returned currentUser) otpResult s)) = Some m \<and>
      authStep (fst (handleEmailSubmit w r (Returned currentUser) otpResult s)) = authStep s \<and>
      resendCooldown (fst (handleEmailSubmit w r (Returned currentUser) otpResult s)) =
        resendCooldown s \<and>
      user (fst (handleEmailSubmit w r (Returned currentUser) otpResult s)) = user s) \<and>
   (\<not> resendCooldown s > 0 \<and>
    failureMessage otpResult ''Failed to resend magic link'' = Some m \<longrightarrow>
      error (fst (handleResendMagicLink w r otpResult s)) = Some m \<and>
      authStep (fst (handleResendMagicLink w r otpResult s)) = authStep s \<and>
      resendCooldown (fst (handleResendMagicLink w r otpResult s)) = resendCooldown s \<and>
      user (fst (handleResendMagicLink w r otpResult s)) = user s)"
  by (auto simp: handleEmailSubmit_def handleResendMagicLink_def Let_def failureMessage_def
        thrownMessage_def split: outcome.splits option.splits)

theorem send_failure_keeps_step_witness:
  "\<forall>w r.
     error (fst (handleEmailSubmit w r (Returned None) (Returned (Some rateLimited)) emailTyped)) =
       Some ''Email rate limit exceeded'' \<and>
     authStep (fst (handleEmailSubmit w r (Returned None) (Returned (Some rateLimited)) emailTyped))
       = Email \<and>
     error (fst (handleResendMagicLink w r (Threw OtherValue) waitingCold)) =
       Some ''Failed to resend magic link'' \<and>
     authStep (fst (handleResendMagicLink w r (Threw OtherValue) waitingCold)) = Waiting \<and>
     resendCooldown (fst (handleResendMagicLink w r (Threw OtherValue) waitingCold)) = 0"
proof (intro allI)
  fix w r
  have h1: "trim (email emailTyped) \<noteq> [] \<and> \<not> sessionMatches None (email emailTyped) \<and>
            failureMessage (Returned (Some rateLimited)) ''Failed to send magic link'' =
              Some ''Email rate limit exceeded''"
    by (simp add: emailTyped_def initialCheckout_def trim_examples sessionMatches_def
          failureMessage_def rateLimited_def)
  have h2: "\<not> resendCooldown waitingCold > 0 \<and>
            failureMessage (Threw OtherValue) ''Failed to resend magic link'' =
              Some ''Failed to resend magic link''"
    by (simp add: waitingCold_def failureMessage_def thrownMessage_def)
  have st: "authStep emailTyped = Email" "authStep waitingCold = Waiting"
    "resendCooldown waitingCold = 0"
    by (simp_all add: emailTyped_def initialCheckout_def waitingCold_def)
  from send_failure_keeps_step [where s = emailTyped and currentUser = None
         and otpResult = "Returned (Some rateLimited)" and m = "''Email rate limit exceeded''"
         and w = w and r = r]
       send_failure_keeps_step [where s = waitingCold and currentUser = None
         and otpResult = "Threw OtherValue" and m = "''Failed to resend magic link''"
         and w = w and r = r]
       h1 h2 st
  show "error (fst (handleEmailSubmit w r (Returned None) (Returned (Some rateLimited)) emailTyped)) =
       Some ''Email rate limit exceeded'' \<and>
     authStep (fst (handleEmailSubmit w r (Returned None) (Returned (Some rateLimited)) emailTyped))
       = Email \<and>
     error (fst (handleResendMagicLink w r (Threw OtherValue) waitingCold)) =
       Some ''Failed to resend magic link'' \<and>
     authStep (fst (handleResendMagicLink w r (Threw OtherValue) waitingCold)) = Waiting \<and>
     resendCooldown (fst (handleResendMagicLink w r (Threw OtherValue) waitingCold)) = 0"
    by simp
qed

text \<open>
  Claim C9. Mounting registers one session-change callback, and the cleanup that the
  subscription effect returns is that subscription's \<open>unsubscribe\<close>: whatever the client's
  registry has become by the time the component unmounts, the callback registered at
  mount is not in it afterwards; and unmounting right after mounting gives back the
  registry as it was (when no identifier in it is one still to be handed out).
\<close>

theorem subscription_released:
  "fst (mount c) = unsubscribe (fst (onAuthStateChange c)) \<and>
   fst (onAuthStateChange c) \<in> set (listeners (snd (mount c))) \<and>
   (\<forall>c2. fst (onAuthStateChange c) \<notin> set (listeners (unmount (fst (mount c)) c2))) \<and>
   ((\<forall>i \<in> set (listeners c). i < nextSubscription c) \<longrightarrow>
      listeners (unmount (fst (mount c)) (snd (mount c))) = listeners c)"
proof -
  have "(\<forall>i \<in> set xs. i < n) \<Longrightarrow> removeAll n xs = xs" for xs :: "nat list" and n
    by (induction xs) auto
  then show ?thesis
    by (simp add: mount_def unmount_def authListenerEffect_def onAuthStateChange_def
          unsubscribe_def)
qed

theorem subscription_released_witness:
  "listeners (snd (mount someClient)) = [3, 2, 0] \<and>
   listeners (unmount (fst (mount someClient)) (snd (mount someClient))) = [2, 0]"
proof -
  have wf: "\<forall>i \<in> set (listeners someClient). i < nextSubscription someClient"
    by (simp add: someClient_def)
  have m: "listeners (snd (mount someClient)) = [3, 2, 0]"
    by (simp add: mount_def authListenerEffect_def onAuthStateChange_def someClient_def)
  have l: "listeners someClient = [2, 0]"
    by (simp add: someClient_def)
  have u: "listeners (unmount (fst (mount someClient)) (snd (mount someClient))) =
           listeners someClient"
    using subscription_released [of someClient] wf by blast
  show ?thesis using m u l by simp
qed

section \<open>Order-status view: theorems\<close>

text \<open>
  Claim C1. The classifier sends every payment status to one of four pairwise different
  descriptors: \<open>SUCCESS\<close> to the success one, \<open>FAILED\<close> to the failed one, \<open>PENDING\<close> and
  \<open>PROCESSING\<close> to the processing one, and null to the unset one; the refresh flag is set
  exactly on the failed and the processing descriptor.
\<close>

theorem payment_status_classification:
  "getPaymentStatusInfo (Some ''SUCCESS'') = successInfo \<and>
   getPaymentStatusInfo (Some ''FAILED'') = failedInfo \<and>
   getPaymentStatusInfo (Some ''PENDING'') = processingInfo \<and>
   getPaymentStatusInfo (Some ''PROCESSING'') = processingInfo \<and>
   getPaymentStatusInfo None = unsetInfo \<and>
   getPaymentStatusInfo paymentStatus \<in> {successInfo, failedInfo, processingInfo, unsetInfo} \<and>
   distinct [successInfo, failedInfo, processingInfo, unsetInfo] \<and>
   showRefresh (getPaymentStatusInfo paymentStatus) =
     (getPaymentStatusInfo paymentStatus = failedInfo \<or>
      getPaymentStatusInfo paymentStatus = processingInfo) \<and>
   showRefresh (getPaymentStatusInfo paymentStatus) =
     (paymentStatus = Some ''FAILED'' \<or> paymentStatus = Some ''PENDING'' \<or>
      paymentStatus = Some ''PROCESSING'')"
proof -
  have d: "distinct [successInfo, failedInfo, processingInfo, unsetInfo]"
    by (simp add: successInfo_def failedInfo_def processingInfo_def unsetInfo_def)
  have r: "\<not> showRefresh successInfo" "showRefresh failedInfo" "showRefresh processingInfo"
    "\<not> showRefresh unsetInfo"
    by (simp_all add: successInfo_def failedInfo_def processingInfo_def unsetInfo_def)
  from d have ne: "successInfo \<noteq> failedInfo" "successInfo \<noteq> processingInfo"
    "unsetInfo \<noteq> failedInfo" "unsetInfo \<noteq> processingInfo"
    by auto
  show ?thesis
    using d r ne by (simp add: getPaymentStatusInfo_def)
qed

text \<open>
  Claim C7. When the order identifier is absent (null or empty) or the order load fails,
  the view ends in its not-found screen and no invoice lookup is made; the effect makes an
  invoice lookup only, and then exactly one for the loaded order's id, when an identifier
  is present and the load gives an order whose payment status is \<open>SUCCESS\<close>. The manual
  refresh, the other caller of \<open>fetchOrder\<close>, looks an invoice up under the same condition
  on the load.
\<close>

theorem order_not_found:
  "((orderId = None \<or> orderId = Some [] \<or> load = LoadFailed) \<longrightarrow>
      isNotFound (render (fst (orderIdEffect orderId load response s))) \<and>
      invoiceLookups (snd (orderIdEffect orderId load response s)) = []) \<and>
   invoiceLookups (snd (orderIdEffect orderId load response s)) =
     (case load of
        LoadFailed \<Rightarrow> []
      | Loaded dat \<Rightarrow>
          if orderId \<noteq> None \<and> orderId \<noteq> Some [] \<and> payment_status dat = Some ''SUCCESS''
          then [InvoiceLookup (order_id dat)] else []) \<and>
   invoiceLookups (snd (handleRefresh orderId load response s)) =
     (case load of
        LoadFailed \<Rightarrow> []
      | Loaded dat \<Rightarrow>
          if payment_status dat = Some ''SUCCESS'' then [InvoiceLookup (order_id dat)] else [])"
  by (simp add: orderIdEffect_def handleRefresh_def fetchOrder_def fetchInvoice_def render_def
        isNotFound_def invoiceLookups_def isInvoiceLookup_def Let_def split: orderLoad.split)

theorem order_not_found_witness:
  "isNotFound (render (fst (orderIdEffect None (Loaded paidOrder) (Returned ResponseNotOk)
      initialView))) \<and>
   invoiceLookups (snd (orderIdEffect None (Loaded paidOrder) (Returned ResponseNotOk)
      initialView)) = [] \<and>
   isNotFound (render (fst (orderIdEffect (Some ''ord-1'') LoadFailed (Returned ResponseNotOk)
      initialView))) \<and>
   invoiceLookups (snd (orderIdEffect (Some ''ord-1'') LoadFailed (Returned ResponseNotOk)
      initialView)) = [] \<and>
   invoiceLookups (snd (orderIdEffect (Some ''ord-1'') (Loaded paidOrder)
      (Returned ResponseNotOk) initialView)) = [InvoiceLookup ''ord-1'']"
proof -
  have p: "payment_status paidOrder = Some ''SUCCESS''" "order_id paidOrder = ''ord-1''"
    by (simp_all add: paidOrder_def)
  from order_not_found [of None "Loaded paidOrder" "Returned ResponseNotOk" initialView]
       order_not_found [of "Some ''ord-1''" LoadFailed "Returned ResponseNotOk" initialView]
       order_not_found [of "Some ''ord-1''" "Loaded paidOrder" "Returned ResponseNotOk"
         initialView] p
  show ?thesis by simp
qed

lemma foldl_max_fold:
  "foldl (\<lambda>mx item. max mx (f item)) a xs = fold max (map f xs) (a :: int)"
  by (induction xs arbitrary: a) (simp_all add: max.commute)

lemma estimatedTime_Max: "estimatedTime its = Max (set (0 # map prepOrZero its))"
  unfolding estimatedTime_def foldl_max_fold by (simp only: Max.set_eq_fold)

text \<open>
  Claim C10. The estimate is the maximum (not the sum) of the items' preparation times,
  an item without one counting as 0, and it is 0 for an empty item list. A preparation
  time is a duration, so no item's value is negative; the fold starts from 0, and on any
  list its result is the maximum of 0 and the items' values, which is the maximum of the
  items' values as soon as one of them is not negative.
\<close>

theorem estimated_time_is_max:
  "estimatedTime its = Max (insert 0 (set (map prepOrZero its))) \<and>
   estimatedTime [] = 0 \<and>
   ((\<exists>item \<in> set its. 0 \<le> prepOrZero item) \<longrightarrow>
      estimatedTime its = Max (set (map prepOrZero its))) \<and>
   (its \<noteq> [] \<and> (\<forall>item \<in> set its. 0 \<le> prepOrZero item) \<longrightarrow>
      estimatedTime its = Max (set (map prepOrZero its)))"
proof -
  have a: "estimatedTime its = Max (insert 0 (set (map prepOrZero its)))"
    using estimatedTime_Max [of its] by simp
  have b: "estimatedTime [] = 0"
    by (simp add: estimatedTime_def)
  have c: "estimatedTime its = Max (set (map prepOrZero its))"
    if "\<exists>item \<in> set its. 0 \<le> prepOrZero item"
  proof -
    from that obtain item where i: "item \<in> set its" "0 \<le> prepOrZero item"
      by blast
    let ?S = "set (map prepOrZero its)"
    have fin: "finite ?S" and ne: "?S \<noteq> {}"
      using i(1) by auto
    have "prepOrZero item \<le> Max ?S"
      using i(1) by (intro Max_ge) auto
    with i(2) have "0 \<le> Max ?S" by linarith
    then have "Max (insert 0 ?S) = Max ?S"
      using fin ne by (simp add: max_def)
    with a show ?thesis by simp
  qed
  have d: "\<exists>item \<in> set its. 0 \<le> prepOrZero item"
    if "its \<noteq> []" and "\<forall>item \<in> set its. 0 \<le> prepOrZero item"
  proof -
    from that(1) obtain item where "item \<in> set its"
      by (cases its) auto
    with that(2) show ?thesis by blast
  qed
  from a b c d show ?thesis by blast
qed

theorem estimated_time_is_max_witness:
  "estimatedTime [dosa, lassi, oddItem] = 15 \<and> estimatedTime [oddItem] = 0"
proof -
  have h: "\<exists>item \<in> set [dosa, lassi, oddItem]. 0 \<le> prepOrZero item"
    by (simp add: prepOrZero_def dosa_def)
  have v: "prepOrZero dosa = 15" "prepOrZero lassi = 0" "prepOrZero oddItem = - 5"
    by (simp_all add: prepOrZero_def dosa_def lassi_def oddItem_def)
  from estimated_time_is_max [of "[dosa, lassi, oddItem]"] h
  have "estimatedTime [dosa, lassi, oddItem] = Max (set (map prepOrZero [dosa, lassi, oddItem]))"
    by blast
  moreover from estimated_time_is_max [of "[oddItem]"]
  have "estimatedTime [oddItem] = Max (insert 0 (set (map prepOrZero [oddItem])))"
    by blast
  ultimately show ?thesis
    using v by simp
qed

section \<open>Dashboards: theorems\<close>

text \<open>
  Claim C8, as stated, holds for every list of invoices. The global dashboard renders one
  row per invoice of its list and removes nothing, so two invoices of one order give two
  rows for that order.
\<close>

theorem dashboard_invoice_entries_counterexample:
  "\<not> (\<forall>invoices orderId.
        length (entriesFor orderId (shownByUserDashboard (userDashboardRows invoices))) \<le> 1)"
proof
  assume "\<forall>invoices orderId.
        length (entriesFor orderId (shownByUserDashboard (userDashboardRows invoices))) \<le> 1"
  then have "length (entriesFor ''ord-1''
               (shownByUserDashboard (userDashboardRows [invoiceA, invoiceB]))) \<le> 1"
    by blast
  then show False
    by (simp add: entriesFor_def shownByUserDashboard_def userDashboardRows_def
          invoiceA_def invoiceB_def)
qed

lemma getInvoiceForOrder_order_id:
  "getInvoiceForOrder invoices orderId = Some found \<Longrightarrow> inv_order_id found = orderId"
  by (auto simp: getInvoiceForOrder_def find_Some_iff)

lemma entriesFor_customer_Cons:
  "entriesFor orderId (shownByCustomerDashboard (customerDashboardRows (order # orders) invoices)) =
     (if order_id order = orderId
      then (case getInvoiceForOrder invoices orderId of None \<Rightarrow> [] | Some i \<Rightarrow> [i])
      else []) @
     entriesFor orderId (shownByCustomerDashboard (customerDashboardRows orders invoices))"
  by (auto simp: entriesFor_def shownByCustomerDashboard_def customerDashboardRows_def
        split: option.splits dest: getInvoiceForOrder_order_id)

lemma entriesFor_customer_absent:
  "orderId \<notin> set (map order_id orders) \<Longrightarrow>
   entriesFor orderId (shownByCustomerDashboard (customerDashboardRows orders invoices)) = []"
proof (induction orders)
  case Nil
  then show ?case
    by (simp add: entriesFor_def shownByCustomerDashboard_def customerDashboardRows_def)
next
  case (Cons order orders)
  then show ?case
    by (auto simp: entriesFor_customer_Cons)
qed

lemma entriesFor_customer_le:
  "distinct (map order_id orders) \<Longrightarrow>
   length (entriesFor orderId
     (shownByCustomerDashboard (customerDashboardRows orders invoices))) \<le> 1"
proof (induction orders)
  case Nil
  then show ?case
    by (simp add: entriesFor_def shownByCustomerDashboard_def customerDashboardRows_def)
next
  case (Cons order orders)
  show ?case
  proof (cases "order_id order = orderId")
    case True
    with Cons.prems have "orderId \<notin> set (map order_id orders)"
      by auto
    then show ?thesis
      using True
      by (simp add: entriesFor_customer_Cons entriesFor_customer_absent split: option.split)
  next
    case False
    with Cons show ?thesis
      by (simp add: entriesFor_customer_Cons)
  qed
qed

lemma entriesFor_user_shown:
  "entriesFor orderId (shownByUserDashboard (userDashboardRows invoices)) =
     filter (\<lambda>i. inv_order_id i = orderId) invoices"
  by (simp add: entriesFor_def shownByUserDashboard_def userDashboardRows_def comp_def)

lemma filter_order_id_absent:
  "orderId \<notin> set (map inv_order_id invoices) \<Longrightarrow>
   filter (\<lambda>i. inv_order_id i = orderId) invoices = []"
  by (induction invoices) auto

lemma entriesFor_user_le:
  "distinct (map inv_order_id invoices) \<Longrightarrow>
   length (entriesFor orderId (shownByUserDashboard (userDashboardRows invoices))) \<le> 1"
proof (induction invoices)
  case Nil
  then show ?case
    by (simp add: entriesFor_user_shown)
next
  case (Cons found invoices)
  show ?case
  proof (cases "inv_order_id found = orderId")
    case True
    with Cons.prems have "orderId \<notin> set (map inv_order_id invoices)"
      by auto
    then have "filter (\<lambda>i. inv_order_id i = orderId) invoices = []"
      by (rule filter_order_id_absent)
    with True show ?thesis
      by (simp add: entriesFor_user_shown)
  next
    case False
    with Cons show ?thesis
      by (simp add: entriesFor_user_shown)
  qed
qed

text \<open>
  Claim C8, amended. In the per-restaurant dashboard each order row shows at most one
  invoice: none when no invoice of the list refers to the order, otherwise the first one
  of the list whose order reference equals the order's id; so, for orders with pairwise
  different ids, at most one invoice entry is shown per order identifier, whatever the
  invoice list. The global dashboard shows one row per invoice of its list; no two of
  its rows share an order identifier when no two invoices of the list do.
\<close>

theorem dashboard_invoice_entries:
  "(\<forall>row \<in> set (customerDashboardRows orders invoices).
      (case row_invoice row of
         None \<Rightarrow> \<forall>i \<in> set invoices. inv_order_id i \<noteq> order_id (row_order row)
       | Some found \<Rightarrow>
           \<exists>k < length invoices. found = invoices ! k \<and>
              inv_order_id found = order_id (row_order row) \<and>
              (\<forall>j < k. inv_order_id (invoices ! j) \<noteq> order_id (row_order row)))) \<and>
   (distinct (map order_id orders) \<longrightarrow>
      length (entriesFor orderId
        (shownByCustomerDashboard (customerDashboardRows orders invoices))) \<le> 1) \<and>
   shownByUserDashboard (userDashboardRows invoices) = invoices \<and>
   (distinct (map inv_order_id invoices) \<longrightarrow>
      length (entriesFor orderId (shownByUserDashboard (userDashboardRows invoices))) \<le> 1)"
proof -
  have rows: "\<forall>row \<in> set (customerDashboardRows orders invoices).
      (case row_invoice row of
         None \<Rightarrow> \<forall>i \<in> set invoices. inv_order_id i \<noteq> order_id (row_order row)
       | Some found \<Rightarrow>
           \<exists>k < length invoices. found = invoices ! k \<and>
              inv_order_id found = order_id (row_order row) \<and>
              (\<forall>j < k. inv_order_id (invoices ! j) \<noteq> order_id (row_order row)))"
    by (auto simp: customerDashboardRows_def getInvoiceForOrder_def find_None_iff
          find_Some_iff split: option.split)
  have shown: "shownByUserDashboard (userDashboardRows invoices) = invoices"
    by (simp add: shownByUserDashboard_def userDashboardRows_def comp_def)
  from rows shown entriesFor_customer_le [of orders orderId invoices]
       entriesFor_user_le [of invoices orderId]
  show ?thesis by blast
qed

theorem dashboard_invoice_entries_witness:
  "map row_invoice (customerDashboardRows [paidOrder, secondOrder] [invoiceA, invoiceB, invoiceC]) =
     [Some invoiceA, Some invoiceC] \<and>
   length (entriesFor ''ord-1'' (shownByCustomerDashboard
     (customerDashboardRows [paidOrder, secondOrder] [invoiceA, invoiceB, invoiceC]))) \<le> 1 \<and>
   length (entriesFor ''ord-1'' (shownByUserDashboard (userDashboardRows [invoiceA, invoiceC])))
     \<le> 1"
proof -
  have d1: "distinct (map order_id [paidOrder, secondOrder])"
    by (simp add: paidOrder_def secondOrder_def)
  have d2: "distinct (map inv_order_id [invoiceA, invoiceC])"
    by (simp add: invoiceA_def invoiceC_def)
  have rows: "map row_invoice
       (customerDashboardRows [paidOrder, secondOrder] [invoiceA, invoiceB, invoiceC]) =
     [Some invoiceA, Some invoiceC]"
    by (simp add: customerDashboardRows_def getInvoiceForOrder_def paidOrder_def
          secondOrder_def invoiceA_def invoiceB_def invoiceC_def)
  from dashboard_invoice_entries [of "[paidOrder, secondOrder]"
         "[invoiceA, invoiceB, invoiceC]" "''ord-1''"] d1
  have a: "length (entriesFor ''ord-1'' (shownByCustomerDashboard
     (customerDashboardRows [paidOrder, secondOrder] [invoiceA, invoiceB, invoiceC]))) \<le> 1"
    by blast
  from dashboard_invoice_entries [of "[]" "[invoiceA, invoiceC]" "''ord-1''"] d2
  have b: "length (entriesFor ''ord-1''
     (shownByUserDashboard (userDashboardRows [invoiceA, invoiceC]))) \<le> 1"
    by blast
  from rows a b show ?thesis by blast
qed

end
